theory Spec2Isabelle
  imports Main "HOL-Library.AList" "HOL-Library.Sublist"
begin

section \<open>Python values and exceptions\<close>

text \<open>
  The values \<^verbatim>\<open>yaml.safe_load\<close> produces and the configuration holds: None, booleans,
  integers, strings, lists and dictionaries. A dictionary is an association list in
  insertion order, read with \<^const>\<open>map_of\<close> and written with \<^const>\<open>AList.update\<close>. Its
  keys are strings: every lookup of the program uses a \<^verbatim>\<open>str\<close> key, which never equals a
  key of another type. Strings are byte strings; upper- and lower-casing act on ASCII
  letters.
\<close>

datatype pyval =
    PNone
  | PBool bool
  | PInt int
  | PStr string
  | PList "pyval list"
  | PDict "(string \<times> pyval) list"

text \<open>
  The exceptions of the program, all subclasses of Python's \<^verbatim>\<open>Exception\<close>. A
  \<^verbatim>\<open>TimeoutException\<close> carries its message (selenium's \<^verbatim>\<open>msg\<close> attribute).
\<close>

datatype exn =
    KeyError string
  | TypeError
  | ValueError string
  | TimeoutException string
  | NoSuchElementException
  | ElementClickInterceptedException
  | ElementNotInteractableException
  | StaleElementReferenceException
  | JavascriptException
  | WebDriverException string

text \<open>Truthiness, and \<^verbatim>\<open>a or b\<close> on values.\<close>

fun truthy :: "pyval \<Rightarrow> bool" where
  "truthy PNone = False"
| "truthy (PBool b) = b"
| "truthy (PInt i) = (i \<noteq> 0)"
| "truthy (PStr s) = (s \<noteq> [])"
| "truthy (PList xs) = (xs \<noteq> [])"
| "truthy (PDict d) = (d \<noteq> [])"


text \<open>
  \<^verbatim>\<open>k in c\<close>, \<^verbatim>\<open>c[k]\<close> and \<^verbatim>\<open>c[k] = v\<close> for a \<^verbatim>\<open>str\<close> key \<open>k\<close>. On a string,
  \<^verbatim>\<open>in\<close> is the substring test and on a list it is membership; None, booleans and
  integers are not iterable. Only a dictionary can be subscripted or assigned with a
  \<^verbatim>\<open>str\<close> key: everything else raises \<^verbatim>\<open>TypeError\<close>.
\<close>

fun contains :: "pyval \<Rightarrow> string \<Rightarrow> exn + bool" where
  "contains (PDict d) k = Inr (map_of d k \<noteq> None)"
| "contains (PStr s) k = Inr (sublist k s)"
| "contains (PList xs) k = Inr (PStr k \<in> set xs)"
| "contains PNone k = Inl TypeError"
| "contains (PBool b) k = Inl TypeError"
| "contains (PInt i) k = Inl TypeError"

fun getitem :: "pyval \<Rightarrow> string \<Rightarrow> exn + pyval" where
  "getitem (PDict d) k = (case map_of d k of None \<Rightarrow> Inl (KeyError k) | Some v \<Rightarrow> Inr v)"
| "getitem PNone k = Inl TypeError"
| "getitem (PBool b) k = Inl TypeError"
| "getitem (PInt i) k = Inl TypeError"
| "getitem (PStr s) k = Inl TypeError"
| "getitem (PList xs) k = Inl TypeError"

fun setitem :: "pyval \<Rightarrow> string \<Rightarrow> pyval \<Rightarrow> exn + pyval" where
  "setitem (PDict d) k v = Inr (PDict (AList.update k v d))"
| "setitem PNone k v = Inl TypeError"
| "setitem (PBool b) k v = Inl TypeError"
| "setitem (PInt i) k v = Inl TypeError"
| "setitem (PStr s) k v = Inl TypeError"
| "setitem (PList xs) k v = Inl TypeError"

section \<open>Strings\<close>

text \<open>\<^verbatim>\<open>str.upper\<close>, \<^verbatim>\<open>str.lower\<close>, \<^verbatim>\<open>str.replace('.', '_')\<close> and \<^verbatim>\<open>str.split('.')\<close>.\<close>

definition upper_char :: "char \<Rightarrow> char" where
  "upper_char c =
     (let n = (of_char c :: nat) in if 97 \<le> n \<and> n \<le> 122 then char_of (n - 32) else c)"

definition lower_char :: "char \<Rightarrow> char" where
  "lower_char c =
     (let n = (of_char c :: nat) in if 65 \<le> n \<and> n \<le> 90 then char_of (n + 32) else c)"

definition upper :: "string \<Rightarrow> string" where
  "upper s = map upper_char s"

definition lower :: "string \<Rightarrow> string" where
  "lower s = map lower_char s"

definition replace_dot :: "string \<Rightarrow> string" where
  "replace_dot s = map (\<lambda>c. if c = CHR ''.'' then CHR ''_'' else c) s"

fun split_dot :: "string \<Rightarrow> string list" where
  "split_dot [] = [[]]"
| "split_dot (c # cs) =
     (if c = CHR ''.'' then [] # split_dot cs
      else (case split_dot cs of [] \<Rightarrow> [[c]] | w # ws \<Rightarrow> (c # w) # ws))"

section \<open>ConfigManager\<close>

text \<open>
  The process environment read by \<^verbatim>\<open>os.getenv\<close> is a map from names to strings. The
  state of the manager is the dictionary \<^verbatim>\<open>_config\<close>.
\<close>

type_synonym environ = "string \<rightharpoonup> string"





text \<open>
  \<^verbatim>\<open>_set_defaults\<close>. The inner loop adds to a section of the loaded configuration the
  default keys it lacks; the outer loop adds the sections it lacks. The program updates
  the section in place; the model reads it, merges and stores it back.
\<close>

fun merge_section :: "pyval \<Rightarrow> (string \<times> pyval) list \<Rightarrow> exn + pyval" where
  "merge_section sec [] = Inr sec"
| "merge_section sec ((k, v) # rest) =
     (case contains sec k of
        Inl e \<Rightarrow> Inl e
      | Inr True \<Rightarrow> merge_section sec rest
      | Inr False \<Rightarrow>
          (case setitem sec k v of
             Inl e \<Rightarrow> Inl e
           | Inr sec' \<Rightarrow> merge_section sec' rest))"

definition set_default_section ::
  "pyval \<Rightarrow> string \<Rightarrow> (string \<times> pyval) list \<Rightarrow> exn + pyval" where
  "set_default_section cfg section vals =
     (case contains cfg section of
        Inl e \<Rightarrow> Inl e
      | Inr False \<Rightarrow> setitem cfg section (PDict vals)
      | Inr True \<Rightarrow>
          (case getitem cfg section of
             Inl e \<Rightarrow> Inl e
           | Inr sec \<Rightarrow>
               (case merge_section sec vals of
                  Inl e \<Rightarrow> Inl e
                | Inr sec' \<Rightarrow> setitem cfg section sec')))"




text \<open>
  \<^verbatim>\<open>get\<close>: the environment variable first, then the walk through the nested
  dictionaries. The walk raises nothing but \<^verbatim>\<open>KeyError\<close> and \<^verbatim>\<open>TypeError\<close> (lemma
  \<open>lookup_path_raises\<close> below), the two exceptions the handler catches, and the handler
  returns the caller's default.
\<close>

definition env_key :: "string \<Rightarrow> string" where
  "env_key k = replace_dot (upper k)"

fun lookup_path :: "pyval \<Rightarrow> string list \<Rightarrow> exn + pyval" where
  "lookup_path v [] = Inr v"
| "lookup_path v (k # ks) =
     (case getitem v k of Inl e \<Rightarrow> Inl e | Inr v' \<Rightarrow> lookup_path v' ks)"

definition get :: "pyval \<Rightarrow> environ \<Rightarrow> string \<Rightarrow> pyval \<Rightarrow> pyval" where
  "get cfg env k dflt =
     (case env (env_key k) of
        Some env_value \<Rightarrow> PStr env_value
      | None \<Rightarrow>
          (case lookup_path cfg (split_dot k) of
             Inr v \<Rightarrow> v
           | Inl e \<Rightarrow> dflt))"

text \<open>
  \<^verbatim>\<open>set\<close>: walk all components but the last, creating an empty dictionary where a
  component is missing, and assign the last. The program mutates the dictionaries in
  place; the model rebuilds the path. An exception can only come from a node that
  existed before the call, so a call that raises has changed nothing.
\<close>

fun set_path :: "pyval \<Rightarrow> string list \<Rightarrow> pyval \<Rightarrow> exn + pyval" where
  "set_path c [] v = Inr c"
| "set_path c [k] v = setitem c k v"
| "set_path c (k # k' # ks) v =
     (case contains c k of
        Inl e \<Rightarrow> Inl e
      | Inr present \<Rightarrow>
          (case (if present then Inr c else setitem c k (PDict [])) of
             Inl e \<Rightarrow> Inl e
           | Inr c' \<Rightarrow>
               (case getitem c' k of
                  Inl e \<Rightarrow> Inl e
                | Inr child \<Rightarrow>
                    (case set_path child (k' # ks) v of
                       Inl e \<Rightarrow> Inl e
                     | Inr child' \<Rightarrow> setitem c' k child'))))"

definition set_cfg :: "pyval \<Rightarrow> string \<Rightarrow> pyval \<Rightarrow> exn + pyval" where
  "set_cfg cfg k v = set_path cfg (split_dot k) v"

text \<open>The sequence \<^verbatim>\<open>config.set(k, v)\<close>, then \<^verbatim>\<open>config.get(k, dflt)\<close>.\<close>

definition set_then_get ::
  "pyval \<Rightarrow> environ \<Rightarrow> string \<Rightarrow> pyval \<Rightarrow> pyval \<Rightarrow> exn + pyval" where
  "set_then_get cfg e k v dflt =
     (case set_cfg cfg k v of
        Inl x \<Rightarrow> Inl x
      | Inr cfg' \<Rightarrow> Inr (get cfg' e k dflt))"

text \<open>The convenience properties \<^verbatim>\<open>config.browser_type\<close>, \<^verbatim>\<open>config.headless\<close>, ...\<close>

definition config_browser_type :: "pyval \<Rightarrow> environ \<Rightarrow> pyval" where
  "config_browser_type cfg e = get cfg e ''browser.type'' (PStr ''chrome'')"

definition config_headless :: "pyval \<Rightarrow> environ \<Rightarrow> pyval" where
  "config_headless cfg e = get cfg e ''browser.headless'' (PBool False)"

definition config_base_url :: "pyval \<Rightarrow> environ \<Rightarrow> pyval" where
  "config_base_url cfg e = get cfg e ''app.url'' (PStr [])"

definition config_timeout :: "pyval \<Rightarrow> environ \<Rightarrow> pyval" where
  "config_timeout cfg e = get cfg e ''browser.timeout'' (PInt 10)"

definition config_env :: "pyval \<Rightarrow> environ \<Rightarrow> pyval" where
  "config_env cfg e = get cfg e ''app.env'' (PStr ''dev'')"

definition config_parallel_execution :: "pyval \<Rightarrow> environ \<Rightarrow> pyval" where
  "config_parallel_execution cfg e = get cfg e ''execution.parallel'' (PBool False)"

definition config_workers :: "pyval \<Rightarrow> environ \<Rightarrow> pyval" where
  "config_workers cfg e = get cfg e ''execution.workers'' (PInt 4)"

definition config_screenshots_on_failure :: "pyval \<Rightarrow> environ \<Rightarrow> pyval" where
  "config_screenshots_on_failure cfg e =
     get cfg e ''reporting.screenshots_on_failure'' (PBool True)"

definition config_video_recording :: "pyval \<Rightarrow> environ \<Rightarrow> pyval" where
  "config_video_recording cfg e = get cfg e ''reporting.video_recording'' (PBool False)"

definition config_log_level :: "pyval \<Rightarrow> environ \<Rightarrow> pyval" where
  "config_log_level cfg e = get cfg e ''logging.level'' (PStr ''INFO'')"

section \<open>The log\<close>

text \<open>
  A line written through \<^verbatim>\<open>loguru\<close>: its level, the f-string's template and the values
  formatted into it, in order.
\<close>

datatype level = DEBUG | INFO | WARNING | ERROR

type_synonym locator = "string \<times> string"

datatype element = Element nat

datatype arg = AInt int | AStr string | ALoc locator | AExn exn

type_synonym log_entry = "level \<times> string \<times> arg list"

section \<open>The browser behind the driver\<close>

text \<open>
  The page under test as the driver observes it. Time is counted in polls: \<open>now\<close> is the
  current instant, and \<open>polls T\<close> is the number of polls that \<^verbatim>\<open>WebDriverWait\<close> repeats
  after its first one before a timeout of \<open>T\<close> seconds has elapsed. At each instant the
  page answers \<^verbatim>\<open>find_elements\<close> (\<open>elements_at\<close>), \<^verbatim>\<open>is_displayed\<close> and
  \<^verbatim>\<open>is_enabled\<close>; \<open>find_error\<close> is an exception the driver raises instead of answering
  a query (a lost session, an invalid selector). The four \<open>_error\<close> fields of the
  interactions say which exception, if any, the browser answers to a native click, a
  script click, \<^verbatim>\<open>clear\<close> and \<^verbatim>\<open>send_keys\<close> on an element. The last four fields are what
  the program changes: the clock, the content of the input fields, the clicks delivered
  and the log.
\<close>

datatype click_kind = Native | Script

record world =
  polls :: "int \<Rightarrow> nat"
  elements_at :: "nat \<Rightarrow> locator \<Rightarrow> element list"
  displayed :: "nat \<Rightarrow> element \<Rightarrow> bool"
  enabled :: "nat \<Rightarrow> element \<Rightarrow> bool"
  find_error :: "nat \<Rightarrow> locator \<Rightarrow> exn option"
  native_click_error :: "element \<Rightarrow> exn option"
  script_click_error :: "element \<Rightarrow> exn option"
  clear_error :: "element \<Rightarrow> exn option"
  send_keys_error :: "element \<Rightarrow> exn option"
  element_text :: "element \<Rightarrow> string"
  element_attribute :: "element \<Rightarrow> string \<Rightarrow> string option"
  now :: nat
  field_value :: "element \<Rightarrow> string"
  clicks :: "(element \<times> click_kind) list"
  logged :: "log_entry list"

definition logger :: "level \<Rightarrow> string \<Rightarrow> arg list \<Rightarrow> world \<Rightarrow> world" where
  "logger lv template args w = w\<lparr>logged := logged w @ [(lv, template, args)]\<rparr>"

subsection \<open>The driver's queries and the expected conditions\<close>

text \<open>
  \<^verbatim>\<open>driver.find_element\<close> returns the first match and raises
  \<^verbatim>\<open>NoSuchElementException\<close> when there is none; \<^verbatim>\<open>find_elements\<close> returns all matches.
  An expected condition, evaluated at an instant, raises (\<open>Inl\<close>), is falsy
  (\<open>Inr None\<close>) or yields a truthy value.
\<close>

definition find_element :: "world \<Rightarrow> nat \<Rightarrow> locator \<Rightarrow> exn + element" where
  "find_element w t loc =
     (case find_error w t loc of
        Some e \<Rightarrow> Inl e
      | None \<Rightarrow> (case elements_at w t loc of [] \<Rightarrow> Inl NoSuchElementException | el # _ \<Rightarrow> Inr el))"

definition find_elements :: "world \<Rightarrow> nat \<Rightarrow> locator \<Rightarrow> exn + element list" where
  "find_elements w t loc =
     (case find_error w t loc of Some e \<Rightarrow> Inl e | None \<Rightarrow> Inr (elements_at w t loc))"

text \<open>What a wait on invisibility returns: \<^verbatim>\<open>True\<close>, \<^verbatim>\<open>False\<close> or the hidden element.\<close>

datatype wait_value = WBool bool | WElement element

definition visibility_of_element_located ::
  "world \<Rightarrow> locator \<Rightarrow> nat \<Rightarrow> exn + element option" where
  "visibility_of_element_located w loc t =
     (case find_element w t loc of
        Inl StaleElementReferenceException \<Rightarrow> Inr None
      | Inl e \<Rightarrow> Inl e
      | Inr el \<Rightarrow> Inr (if displayed w t el then Some el else None))"

definition presence_of_all_elements_located ::
  "world \<Rightarrow> locator \<Rightarrow> nat \<Rightarrow> exn + element list option" where
  "presence_of_all_elements_located w loc t =
     (case find_elements w t loc of
        Inl e \<Rightarrow> Inl e
      | Inr els \<Rightarrow> Inr (if els = [] then None else Some els))"

definition element_to_be_clickable ::
  "world \<Rightarrow> locator \<Rightarrow> nat \<Rightarrow> exn + element option" where
  "element_to_be_clickable w loc t =
     (case find_element w t loc of
        Inl e \<Rightarrow> Inl e
      | Inr el \<Rightarrow> Inr (if displayed w t el \<and> enabled w t el then Some el else None))"

definition invisibility_of_element_located ::
  "world \<Rightarrow> locator \<Rightarrow> nat \<Rightarrow> exn + wait_value option" where
  "invisibility_of_element_located w loc t =
     (case find_element w t loc of
        Inl NoSuchElementException \<Rightarrow> Inr (Some (WBool True))
      | Inl StaleElementReferenceException \<Rightarrow> Inr (Some (WBool True))
      | Inl e \<Rightarrow> Inl e
      | Inr el \<Rightarrow> Inr (if displayed w t el then None else Some (WElement el)))"

text \<open>
  \<^verbatim>\<open>WebDriverWait(driver, timeout).until(method, message="")\<close>. One round of its loop
  evaluates the condition: a truthy value is returned, a \<^verbatim>\<open>NoSuchElementException\<close> is
  ignored and counts as falsy, any other exception leaves the wait. After a falsy round
  the wait raises \<^verbatim>\<open>TimeoutException(message)\<close> when the time is up, and otherwise sleeps
  and polls again. The first argument of \<open>until\<close> is the number of polls left after this
  one; the result comes with the instant of the last poll.
\<close>

datatype 'a polled = Value 'a | Again | Raised exn

definition poll :: "(nat \<Rightarrow> exn + 'a option) \<Rightarrow> nat \<Rightarrow> 'a polled" where
  "poll method t =
     (case method t of
        Inr (Some v) \<Rightarrow> Value v
      | Inr None \<Rightarrow> Again
      | Inl NoSuchElementException \<Rightarrow> Again
      | Inl e \<Rightarrow> Raised e)"

fun until :: "nat \<Rightarrow> (nat \<Rightarrow> exn + 'a option) \<Rightarrow> string \<Rightarrow> nat \<Rightarrow> (exn + 'a) \<times> nat" where
  "until 0 method message t =
     (case poll method t of
        Value v \<Rightarrow> (Inr v, t)
      | Again \<Rightarrow> (Inl (TimeoutException message), t)
      | Raised e \<Rightarrow> (Inl e, t))"
| "until (Suc n) method message t =
     (case poll method t of
        Value v \<Rightarrow> (Inr v, t)
      | Again \<Rightarrow> until n method message (Suc t)
      | Raised e \<Rightarrow> (Inl e, t))"

text \<open>
  \<^verbatim>\<open>WebDriverWait(self.driver, timeout).until(condition)\<close> as the page object calls it:
  no message is passed, so the message is the default empty string. The clock advances
  to the instant of the last poll.
\<close>

definition wait_until ::
  "int \<Rightarrow> (world \<Rightarrow> nat \<Rightarrow> exn + 'a option) \<Rightarrow> world \<Rightarrow> (exn + 'a) \<times> world" where
  "wait_until T condition w =
     (case until (polls w T) (condition w) [] (now w) of (r, t) \<Rightarrow> (r, w\<lparr>now := t\<rparr>))"

section \<open>BasePage\<close>

text \<open>
  A page object holds the driver (here the \<^typ>\<open>world\<close> passed to every method) and
  \<^verbatim>\<open>self.timeout\<close>. A method takes the world and returns its result, or the exception
  it raises, with the world it leaves.
\<close>

record base_page =
  default_timeout :: int

text \<open>\<^verbatim>\<open>timeout = timeout or self.timeout\<close>: \<^verbatim>\<open>None\<close> and \<^verbatim>\<open>0\<close> are the falsy timeouts.\<close>

definition timeout_or :: "int option \<Rightarrow> int \<Rightarrow> int" where
  "timeout_or t d = (case t of None \<Rightarrow> d | Some T \<Rightarrow> if T = 0 then d else T)"

definition wait_for_element ::
  "base_page \<Rightarrow> locator \<Rightarrow> int option \<Rightarrow> world \<Rightarrow> (exn + element) \<times> world" where
  "wait_for_element self loc t w =
     (let T = timeout_or t (default_timeout self);
          w1 = logger DEBUG ''Waiting for element: {locator}'' [ALoc loc] w
      in case wait_until T (\<lambda>w. visibility_of_element_located w loc) w1 of
           (Inr el, w2) \<Rightarrow> (Inr el, w2)
         | (Inl (TimeoutException m), w2) \<Rightarrow>
             (Inl (TimeoutException m),
              logger ERROR ''Element not found within {timeout}s: {locator}'' [AInt T, ALoc loc] w2)
         | (Inl e, w2) \<Rightarrow> (Inl e, w2))"

definition wait_for_elements ::
  "base_page \<Rightarrow> locator \<Rightarrow> int option \<Rightarrow> world \<Rightarrow> (exn + element list) \<times> world" where
  "wait_for_elements self loc t w =
     (let T = timeout_or t (default_timeout self);
          w1 = logger DEBUG ''Waiting for elements: {locator}'' [ALoc loc] w
      in case wait_until T (\<lambda>w. presence_of_all_elements_located w loc) w1 of
           (Inr els, w2) \<Rightarrow> (Inr els, w2)
         | (Inl (TimeoutException m), w2) \<Rightarrow>
             (Inl (TimeoutException m),
              logger ERROR ''Elements not found within {timeout}s: {locator}'' [AInt T, ALoc loc] w2)
         | (Inl e, w2) \<Rightarrow> (Inl e, w2))"

definition wait_for_element_clickable ::
  "base_page \<Rightarrow> locator \<Rightarrow> int option \<Rightarrow> world \<Rightarrow> (exn + element) \<times> world" where
  "wait_for_element_clickable self loc t w =
     (let T = timeout_or t (default_timeout self);
          w1 = logger DEBUG ''Waiting for element to be clickable: {locator}'' [ALoc loc] w
      in case wait_until T (\<lambda>w. element_to_be_clickable w loc) w1 of
           (Inr el, w2) \<Rightarrow> (Inr el, w2)
         | (Inl (TimeoutException m), w2) \<Rightarrow>
             (Inl (TimeoutException m),
              logger ERROR ''Element not clickable within {timeout}s: {locator}''
                [AInt T, ALoc loc] w2)
         | (Inl e, w2) \<Rightarrow> (Inl e, w2))"

definition wait_for_element_invisible ::
  "base_page \<Rightarrow> locator \<Rightarrow> int option \<Rightarrow> world \<Rightarrow> (exn + wait_value) \<times> world" where
  "wait_for_element_invisible self loc t w =
     (let T = timeout_or t (default_timeout self);
          w1 = logger DEBUG ''Waiting for element to be invisible: {locator}'' [ALoc loc] w
      in case wait_until T (\<lambda>w. invisibility_of_element_located w loc) w1 of
           (Inr v, w2) \<Rightarrow> (Inr v, w2)
         | (Inl (TimeoutException m), w2) \<Rightarrow>
             (Inr (WBool False),
              logger ERROR ''Element still visible after {timeout}s: {locator}''
                [AInt T, ALoc loc] w2)
         | (Inl e, w2) \<Rightarrow> (Inl e, w2))"

definition is_element_visible ::
  "base_page \<Rightarrow> locator \<Rightarrow> int option \<Rightarrow> world \<Rightarrow> (exn + bool) \<times> world" where
  "is_element_visible self loc t w =
     (let T = timeout_or t (default_timeout self)
      in case wait_until T (\<lambda>w. visibility_of_element_located w loc) w of
           (Inr el, w1) \<Rightarrow> (Inr True, w1)
         | (Inl (TimeoutException m), w1) \<Rightarrow> (Inr False, w1)
         | (Inl e, w1) \<Rightarrow> (Inl e, w1))"

subsection \<open>Interactions\<close>

text \<open>
  The element operations of the driver. \<^verbatim>\<open>element.click()\<close> and the script click
  \<^verbatim>\<open>execute_script("arguments[0].click();", element)\<close> deliver a click or raise what the
  browser answers; \<^verbatim>\<open>clear\<close> empties an input field and \<^verbatim>\<open>send_keys\<close> types at the end
  of its content, as the WebDriver protocol defines them.
\<close>

definition element_click :: "element \<Rightarrow> world \<Rightarrow> (exn + unit) \<times> world" where
  "element_click el w =
     (case native_click_error w el of
        Some e \<Rightarrow> (Inl e, w)
      | None \<Rightarrow> (Inr (), w\<lparr>clicks := clicks w @ [(el, Native)]\<rparr>))"

definition execute_script_click :: "element \<Rightarrow> world \<Rightarrow> (exn + unit) \<times> world" where
  "execute_script_click el w =
     (case script_click_error w el of
        Some e \<Rightarrow> (Inl e, w)
      | None \<Rightarrow> (Inr (), w\<lparr>clicks := clicks w @ [(el, Script)]\<rparr>))"

definition element_clear :: "element \<Rightarrow> world \<Rightarrow> (exn + unit) \<times> world" where
  "element_clear el w =
     (case clear_error w el of
        Some e \<Rightarrow> (Inl e, w)
      | None \<Rightarrow> (Inr (), w\<lparr>field_value := (field_value w)(el := [])\<rparr>))"

definition element_send_keys :: "element \<Rightarrow> string \<Rightarrow> world \<Rightarrow> (exn + unit) \<times> world" where
  "element_send_keys el txt w =
     (case send_keys_error w el of
        Some e \<Rightarrow> (Inl e, w)
      | None \<Rightarrow> (Inr (), w\<lparr>field_value := (field_value w)(el := field_value w el @ txt)\<rparr>))"

text \<open>
  \<^verbatim>\<open>click\<close>: the handler \<^verbatim>\<open>except Exception\<close> catches every exception of the native
  click; what the script click raises is not caught.
\<close>

definition click :: "base_page \<Rightarrow> locator \<Rightarrow> int option \<Rightarrow> world \<Rightarrow> (exn + unit) \<times> world" where
  "click self loc t w =
     (case wait_for_element_clickable self loc t w of
        (Inl e, w1) \<Rightarrow> (Inl e, w1)
      | (Inr el, w1) \<Rightarrow>
          (let w2 = logger INFO ''Clicking element: {locator}'' [ALoc loc] w1
           in case element_click el w2 of
                (Inr u, w3) \<Rightarrow> (Inr (), w3)
              | (Inl e, w3) \<Rightarrow>
                  execute_script_click el
                    (logger WARNING ''Regular click failed, trying JavaScript click: {e}''
                       [AExn e] w3)))"

definition enter_text ::
  "base_page \<Rightarrow> locator \<Rightarrow> string \<Rightarrow> bool \<Rightarrow> int option \<Rightarrow> world \<Rightarrow> (exn + unit) \<times> world" where
  "enter_text self loc txt clear_first t w =
     (case wait_for_element self loc t w of
        (Inl e, w1) \<Rightarrow> (Inl e, w1)
      | (Inr el, w1) \<Rightarrow>
          (let w2 = logger INFO ''Entering text into: {locator}'' [ALoc loc] w1
           in case (if clear_first then element_clear el w2 else (Inr (), w2)) of
                (Inl e, w3) \<Rightarrow> (Inl e, w3)
              | (Inr u, w3) \<Rightarrow> element_send_keys el txt w3))"

definition get_text :: "base_page \<Rightarrow> locator \<Rightarrow> int option \<Rightarrow> world \<Rightarrow> (exn + string) \<times> world" where
  "get_text self loc t w =
     (case wait_for_element self loc t w of
        (Inl e, w1) \<Rightarrow> (Inl e, w1)
      | (Inr el, w1) \<Rightarrow>
          (Inr (element_text w1 el),
           logger DEBUG ''Got text from {locator}: {text}'' [ALoc loc, AStr (element_text w1 el)] w1))"

definition get_attribute ::
  "base_page \<Rightarrow> locator \<Rightarrow> string \<Rightarrow> int option \<Rightarrow> world \<Rightarrow> (exn + string option) \<times> world" where
  "get_attribute self loc attribute t w =
     (case wait_for_element self loc t w of
        (Inl e, w1) \<Rightarrow> (Inl e, w1)
      | (Inr el, w1) \<Rightarrow>
          (Inr (element_attribute w1 el attribute),
           logger DEBUG ''Got attribute '{attribute}' from {locator}: {value}''
             [AStr attribute, ALoc loc,
              (case element_attribute w1 el attribute of None \<Rightarrow> AStr ''None'' | Some v \<Rightarrow> AStr v)]
             w1))"

section \<open>DriverFactory\<close>

text \<open>
  The options object a session is started with: its class, the command-line arguments,
  the experimental options (Chrome) and the preferences (Firefox).
\<close>

datatype options_class = ChromeOptions | FirefoxOptions | EdgeOptions

record options =
  options_class :: options_class
  arguments :: "string list"
  experimental_options :: "(string \<times> pyval) list"
  preferences :: "(string \<times> pyval) list"

definition new_options :: "options_class \<Rightarrow> options" where
  "new_options c =
     \<lparr>options_class = c, arguments = [], experimental_options = [], preferences = []\<rparr>"

definition add_argument :: "string \<Rightarrow> options \<Rightarrow> options" where
  "add_argument a opts = opts\<lparr>arguments := arguments opts @ [a]\<rparr>"

definition add_experimental_option :: "string \<Rightarrow> pyval \<Rightarrow> options \<Rightarrow> options" where
  "add_experimental_option n v opts =
     opts\<lparr>experimental_options := AList.update n v (experimental_options opts)\<rparr>"

definition set_preference :: "string \<Rightarrow> pyval \<Rightarrow> options \<Rightarrow> options" where
  "set_preference n v opts = opts\<lparr>preferences := AList.update n v (preferences opts)\<rparr>"

text \<open>
  The constructor called to start a session: a local browser through its driver
  manager, or \<^verbatim>\<open>webdriver.Remote\<close> with the endpoint. A started session has an id, what
  its \<^verbatim>\<open>quit()\<close> raises (if anything), and the settings applied to it.
\<close>

datatype launch =
    LocalChrome options
  | LocalFirefox options
  | LocalEdge options
  | Remote string options

record webdriver =
  session_id :: string
  launched_by :: launch
  quit_error :: "exn option"
  implicit_wait :: "int option"
  page_load_timeout :: "int option"
  script_timeout :: "int option"
  maximized :: bool

text \<open>
  What is outside the program: whether starting a session succeeds, the id it gets and
  the behaviour of its \<^verbatim>\<open>quit()\<close>.
\<close>

type_synonym launcher = "launch \<Rightarrow> exn + string \<times> exn option"

definition start_session :: "launcher \<Rightarrow> launch \<Rightarrow> exn + webdriver" where
  "start_session launcher l =
     (case launcher l of
        Inl e \<Rightarrow> Inl e
      | Inr (sid, qe) \<Rightarrow>
          Inr \<lparr>session_id = sid, launched_by = l, quit_error = qe, implicit_wait = None,
               page_load_timeout = None, script_timeout = None, maximized = False\<rparr>)"

record driver_factory =
  browser :: string
  headless :: bool
  remote_url :: "string option"
  driver :: "webdriver option"

text \<open>\<^verbatim>\<open>__init__\<close>\<close>

definition new_factory :: "string \<Rightarrow> bool \<Rightarrow> string option \<Rightarrow> driver_factory" where
  "new_factory b h r = \<lparr>browser = lower b, headless = h, remote_url = r, driver = None\<rparr>"

definition create_chrome_driver :: "launcher \<Rightarrow> driver_factory \<Rightarrow> exn + webdriver" where
  "create_chrome_driver launcher self =
     (let opts = new_options ChromeOptions;
          opts = add_argument ''--disable-gpu'' opts;
          opts = add_argument ''--no-sandbox'' opts;
          opts = add_argument ''--disable-dev-shm-usage'' opts;
          opts = add_argument ''--disable-extensions'' opts;
          opts = add_argument ''--disable-infobars'' opts;
          opts = add_argument ''--disable-notifications'' opts;
          opts = add_argument ''--incognito'' opts;
          opts = add_experimental_option ''excludeSwitches'' (PList [PStr ''enable-logging'']) opts;
          opts = add_experimental_option ''prefs''
                   (PDict [(''profile.default_content_setting_values.notifications'', PInt 2),
                           (''credentials_enable_service'', PBool False),
                           (''profile.password_manager_enabled'', PBool False)]) opts;
          opts = (if headless self
                  then add_argument ''--window-size=1920,1080'' (add_argument ''--headless=new'' opts)
                  else opts)
      in start_session launcher (LocalChrome opts))"

definition create_firefox_driver :: "launcher \<Rightarrow> driver_factory \<Rightarrow> exn + webdriver" where
  "create_firefox_driver launcher self =
     (let opts = new_options FirefoxOptions;
          opts = set_preference ''dom.webnotifications.enabled'' (PBool False) opts;
          opts = set_preference ''media.volume_scale'' (PStr ''0.0'') opts;
          opts = (if headless self
                  then add_argument ''--height=1080''
                         (add_argument ''--width=1920'' (add_argument ''--headless'' opts))
                  else opts)
      in start_session launcher (LocalFirefox opts))"

definition create_edge_driver :: "launcher \<Rightarrow> driver_factory \<Rightarrow> exn + webdriver" where
  "create_edge_driver launcher self =
     (let opts = new_options EdgeOptions;
          opts = add_argument ''--disable-gpu'' opts;
          opts = add_argument ''--no-sandbox'' opts;
          opts = add_argument ''--disable-dev-shm-usage'' opts;
          opts = (if headless self
                  then add_argument ''--window-size=1920,1080'' (add_argument ''--headless'' opts)
                  else opts)
      in start_session launcher (LocalEdge opts))"

text \<open>
  \<^verbatim>\<open>_create_remote_driver\<close>: Chrome options for \<^verbatim>\<open>"chrome"\<close>, Firefox options for every
  other browser name.
\<close>

definition create_remote_driver ::
  "launcher \<Rightarrow> driver_factory \<Rightarrow> log_entry list \<Rightarrow> (exn + webdriver) \<times> log_entry list" where
  "create_remote_driver launcher self lg =
     (let url = (case remote_url self of None \<Rightarrow> [] | Some u \<Rightarrow> u);
          lg1 = lg @ [(INFO, ''Connecting to remote WebDriver at {remote_url}'', [AStr url])];
          opts = (if browser self = ''chrome'' then new_options ChromeOptions
                  else new_options FirefoxOptions);
          opts = (if headless self then add_argument ''--headless'' opts else opts)
      in (start_session launcher (Remote url opts), lg1))"

text \<open>
  \<^verbatim>\<open>_configure_driver\<close>: nothing without a driver; otherwise the three timeouts, the
  window when not headless, and a log line.
\<close>

definition configure_driver ::
  "driver_factory \<Rightarrow> log_entry list \<Rightarrow> driver_factory \<times> log_entry list" where
  "configure_driver self lg =
     (case driver self of
        None \<Rightarrow> (self, lg)
      | Some d \<Rightarrow>
          (let d = d\<lparr>implicit_wait := Some 10\<rparr>;
               d = d\<lparr>page_load_timeout := Some 30\<rparr>;
               d = d\<lparr>script_timeout := Some 30\<rparr>;
               d = (if \<not> headless self then d\<lparr>maximized := True\<rparr> else d)
           in (self\<lparr>driver := Some d\<rparr>,
               lg @ [(INFO, ''Driver configured successfully: {session_id}'',
                      [AStr (session_id d)])])))"

text \<open>
  \<^verbatim>\<open>create_driver\<close>. \<^verbatim>\<open>if self.remote_url\<close> holds for a non-empty string. The result is
  the session or the exception, the factory and the log.
\<close>

definition driver_map :: "(string \<times> (launcher \<Rightarrow> driver_factory \<Rightarrow> exn + webdriver)) list" where
  "driver_map =
     [(''chrome'', create_chrome_driver),
      (''firefox'', create_firefox_driver),
      (''edge'', create_edge_driver)]"

definition create_driver ::
  "launcher \<Rightarrow> driver_factory \<Rightarrow> log_entry list
     \<Rightarrow> (exn + webdriver) \<times> driver_factory \<times> log_entry list" where
  "create_driver launcher self lg =
     (let lg1 = lg @ [(INFO, ''Creating {browser} driver (headless={headless})'',
                       [AStr (browser self), AStr (if headless self then ''True'' else ''False'')])]
      in if remote_url self \<noteq> None \<and> remote_url self \<noteq> Some []
         then (case create_remote_driver launcher self lg1 of (r, lg2) \<Rightarrow> (r, self, lg2))
         else (case map_of driver_map (browser self) of
                 None \<Rightarrow>
                   (Inl (ValueError (''Unsupported browser: '' @ browser self
                           @ ''. Supported browsers: chrome, firefox, edge'')),
                    self, lg1)
               | Some create \<Rightarrow>
                   (case create launcher self of
                      Inl e \<Rightarrow> (Inl e, self, lg1)
                    | Inr d \<Rightarrow>
                        (case configure_driver (self\<lparr>driver := Some d\<rparr>) lg1 of
                           (self', lg2) \<Rightarrow>
                             (case driver self' of
                                Some d' \<Rightarrow> (Inr d', self', lg2)
                              | None \<Rightarrow> (Inr d, self', lg2))))))"

text \<open>
  \<^verbatim>\<open>quit_driver\<close>: with a driver, log, quit, log what \<^verbatim>\<open>except Exception\<close> caught, and
  in every case (\<^verbatim>\<open>finally\<close>) drop the reference.
\<close>

definition quit_driver ::
  "driver_factory \<Rightarrow> log_entry list \<Rightarrow> (exn + unit) \<times> driver_factory \<times> log_entry list" where
  "quit_driver self lg =
     (case driver self of
        None \<Rightarrow> (Inr (), self, lg)
      | Some d \<Rightarrow>
          (let lg1 = lg @ [(INFO, ''Quitting driver: {session_id}'', [AStr (session_id d)])];
               body = (case quit_error d of None \<Rightarrow> Inr () | Some e \<Rightarrow> Inl e);
               handled =
                 (case body of
                    Inr u \<Rightarrow> (Inr (), lg1)
                  | Inl e \<Rightarrow> (Inr (), lg1 @ [(ERROR, ''Error quitting driver: {e}'', [AExn e])]))
           in (fst handled, self\<lparr>driver := None\<rparr>, snd handled)))"

section \<open>Example inputs\<close>


definition example_config :: pyval where
  "example_config =
     PDict
       [(''browser'',
         PDict [(''type'', PStr ''firefox''), (''headless'', PBool False), (''timeout'', PInt 10),
                (''page_load_timeout'', PInt 30)]),
        (''app'', PDict [(''url'', PStr ''https://www.saucedemo.com''), (''env'', PStr ''dev'')]),
        (''selenium'',
         PDict [(''implicit_wait'', PInt 10), (''explicit_wait'', PInt 10),
                (''page_load_timeout'', PInt 30)]),
        (''reporting'',
         PDict [(''screenshots_on_failure'', PBool True), (''video_recording'', PBool False),
                (''allure_results_dir'', PStr ''allure-results'')]),
        (''execution'',
         PDict [(''parallel'', PBool False), (''workers'', PInt 4), (''retry_failed'', PBool True),
                (''max_retries'', PInt 2)]),
        (''logging'',
         PDict [(''level'', PStr ''INFO''), (''file'', PStr ''logs/test_execution.log''),
                (''console'', PBool True)])]"

text \<open>An environment in which the variable of every convenience property reads \<^verbatim>\<open>false\<close>.\<close>

definition all_false_environ :: environ where
  "all_false_environ =
     map_of
       [(''BROWSER_TYPE'', ''false''), (''BROWSER_HEADLESS'', ''false''), (''APP_URL'', ''false''),
        (''BROWSER_TIMEOUT'', ''false''), (''APP_ENV'', ''false''),
        (''EXECUTION_PARALLEL'', ''false''), (''EXECUTION_WORKERS'', ''false''),
        (''REPORTING_SCREENSHOTS_ON_FAILURE'', ''false''),
        (''REPORTING_VIDEO_RECORDING'', ''false''), (''LOGGING_LEVEL'', ''false'')]"

text \<open>
  A page object with the default timeout of ten seconds, and three browsers that poll
  twice a second. The first shows a page on which no locator matches anything. The
  second shows a login page: the user-name field (element 11, holding \<^verbatim>\<open>old\<close>) appears at
  instant 3; the login button (element 12) is there from the start but covered, so that
  a native click is intercepted while a script click goes through; an error banner
  (element 13) stays displayed. On the third the script click on the button fails too.
\<close>

definition page0 :: base_page where
  "page0 = \<lparr>default_timeout = 10\<rparr>"

definition blank_world :: world where
  "blank_world =
     \<lparr>polls = (\<lambda>T. nat (2 * T)),
      elements_at = (\<lambda>t loc. []),
      displayed = (\<lambda>t el. False),
      enabled = (\<lambda>t el. False),
      find_error = (\<lambda>t loc. None),
      native_click_error = (\<lambda>el. None),
      script_click_error = (\<lambda>el. None),
      clear_error = (\<lambda>el. None),
      send_keys_error = (\<lambda>el. None),
      element_text = (\<lambda>el. []),
      element_attribute = (\<lambda>el a. None),
      now = 0,
      field_value = (\<lambda>el. []),
      clicks = [],
      logged = []\<rparr>"

definition login_world :: world where
  "login_world =
     blank_world
       \<lparr>elements_at :=
          (\<lambda>t loc.
             if loc = (''id'', ''user-name'') then (if 3 \<le> t then [Element 11] else [])
             else if loc = (''id'', ''login-button'') then [Element 12]
             else if loc = (''css selector'', ''.error'') then [Element 13]
             else []),
        displayed := (\<lambda>t el. True),
        enabled := (\<lambda>t el. True),
        native_click_error :=
          (\<lambda>el. if el = Element 12 then Some ElementClickInterceptedException else None),
        field_value := (\<lambda>el. if el = Element 11 then ''old'' else [])\<rparr>"

definition broken_world :: world where
  "broken_world =
     login_world
       \<lparr>script_click_error := (\<lambda>el. if el = Element 12 then Some JavascriptException else None)\<rparr>"

text \<open>
  A launcher that starts every session asked for, and a factory holding a session whose
  \<^verbatim>\<open>quit()\<close> raises.
\<close>

definition accepting_launcher :: launcher where
  "accepting_launcher = (\<lambda>l. Inr (''session-1'', None))"

definition stuck_driver :: webdriver where
  "stuck_driver =
     \<lparr>session_id = ''session-2'',
      launched_by = LocalChrome (new_options ChromeOptions),
      quit_error = Some (WebDriverException ''chrome not reachable''),
      implicit_wait = Some 10, page_load_timeout = Some 30, script_timeout = Some 30,
      maximized = True\<rparr>"

definition stuck_factory :: driver_factory where
  "stuck_factory =
     \<lparr>browser = ''chrome'', headless = False, remote_url = None, driver = Some stuck_driver\<rparr>"

section \<open>Properties of the configuration\<close>

lemma split_dot_nonempty: "split_dot s \<noteq> []"
  by (induction s) (auto split: list.splits)

lemma getitem_raises: "getitem v k = Inl e \<Longrightarrow> e = TypeError \<or> e = KeyError k"
  by (cases v) (auto split: option.splits)

lemma lookup_path_raises:
  "lookup_path v ks = Inl e \<Longrightarrow> e = TypeError \<or> (\<exists>k. e = KeyError k)"
  by (induction ks arbitrary: v) (auto split: sum.splits dest: getitem_raises)

lemma getitem_update:
  "getitem (PDict (AList.update k v d)) k' = (if k' = k then Inr v else getitem (PDict d) k')"
  by (simp add: update_conv')






lemma set_default_section_dict:
  "set_default_section cfg s vals = Inr cfg' \<Longrightarrow> \<exists>d. cfg = PDict d"
  by (cases cfg) (auto simp: set_default_section_def split: bool.splits)













lemma env_key_browser_type: "env_key ''browser.type'' = ''BROWSER_TYPE''"
  by code_simp


subsection \<open>Precedence of the sources\<close>



subsection \<open>A value set at run time\<close>

text \<open>
  After \<^verbatim>\<open>set(k, v)\<close> the walk of \<^verbatim>\<open>get\<close> along \<open>k\<close> finds \<open>v\<close>; but \<^verbatim>\<open>get\<close> reads the
  environment before it walks.
\<close>

lemma set_path_lookup:
  "set_path c ks v = Inr c' \<Longrightarrow> ks \<noteq> [] \<Longrightarrow> lookup_path c' ks = Inr v"
proof (induction c ks v arbitrary: c' rule: set_path.induct)
  case (1 c v)
  then show ?case by simp
next
  case (2 c k v)
  then show ?case by (cases c) (auto simp: update_conv')
next
  case (3 c k k' ks v)
  from "3.prems"(1) obtain present c1 child child' where
    p: "contains c k = Inr present"
    and c1: "(if present then Inr c else setitem c k (PDict [])) = Inr c1"
    and ch: "getitem c1 k = Inr child"
    and sp: "set_path child (k' # ks) v = Inr child'"
    and fin: "setitem c1 k child' = Inr c'"
    by (auto split: sum.splits)
  from "3.IH" [OF p c1 ch sp] have "lookup_path child' (k' # ks) = Inr v" by simp
  moreover from fin have "getitem c' k = Inr child'"
    by (cases c1) (auto simp: update_conv')
  ultimately show ?case by simp
qed

lemma get_after_set:
  "e (env_key k) = None \<Longrightarrow> set_then_get cfg e k v d = Inr x \<Longrightarrow> x = v"
  using set_path_lookup [of cfg "split_dot k" v] split_dot_nonempty [of k]
  by (auto simp: set_then_get_def set_cfg_def get_def split: sum.splits)

lemma get_after_set_environment:
  "e (env_key k) = Some s \<Longrightarrow> set_then_get cfg e k v d = Inr x \<Longrightarrow> x = PStr s"
  by (auto simp: set_then_get_def get_def split: sum.splits)

text \<open>
  Claim C1 says that after \<^verbatim>\<open>set(k, v)\<close> a \<^verbatim>\<open>get(k)\<close> returns \<open>v\<close> even when the
  environment variable of \<open>k\<close> is set. The program does not do that: with
  \<^verbatim>\<open>BROWSER_TYPE=edge\<close> in the environment, \<^verbatim>\<open>set('browser.type', 'chrome')\<close> succeeds and
  the following \<^verbatim>\<open>get('browser.type')\<close> returns \<^verbatim>\<open>'edge'\<close>.
\<close>

theorem set_then_get_environment_wins:
  "set_then_get example_config [''BROWSER_TYPE'' \<mapsto> ''edge''] ''browser.type''
     (PStr ''chrome'') PNone = Inr (PStr ''edge'')"
  by (simp add: set_then_get_def set_cfg_def get_def example_config_def env_key_browser_type)


subsection \<open>Environment values are strings\<close>

lemma env_key_accessors:
  "env_key ''browser.type'' = ''BROWSER_TYPE''"
  "env_key ''browser.headless'' = ''BROWSER_HEADLESS''"
  "env_key ''app.url'' = ''APP_URL''"
  "env_key ''browser.timeout'' = ''BROWSER_TIMEOUT''"
  "env_key ''app.env'' = ''APP_ENV''"
  "env_key ''execution.parallel'' = ''EXECUTION_PARALLEL''"
  "env_key ''execution.workers'' = ''EXECUTION_WORKERS''"
  "env_key ''reporting.screenshots_on_failure'' = ''REPORTING_SCREENSHOTS_ON_FAILURE''"
  "env_key ''reporting.video_recording'' = ''REPORTING_VIDEO_RECORDING''"
  "env_key ''logging.level'' = ''LOGGING_LEVEL''"
  by code_simp+

lemma get_environment: "e (env_key k) = Some s \<Longrightarrow> get cfg e k d = PStr s"
  by (simp add: get_def)

text \<open>
  Claim C10, as amended. When the environment variable of a key is set, \<^verbatim>\<open>get\<close> returns
  its value as a string, whatever the type of the stored value or of the default
  argument. So each convenience property returns that string when its variable is set;
  the string returned by \<^verbatim>\<open>headless\<close> (whose default is a boolean) is truthy exactly when
  the variable's value is not empty, as for \<^verbatim>\<open>false\<close>.
\<close>

theorem environment_value_is_raw_string:
  "(e (env_key k) = Some s \<longrightarrow> get cfg e k d = PStr s) \<and>
   (e ''BROWSER_TYPE'' = Some s \<longrightarrow> config_browser_type cfg e = PStr s) \<and>
   (e ''BROWSER_HEADLESS'' = Some s \<longrightarrow>
      config_headless cfg e = PStr s \<and> truthy (config_headless cfg e) = (s \<noteq> [])) \<and>
   (e ''APP_URL'' = Some s \<longrightarrow> config_base_url cfg e = PStr s) \<and>
   (e ''BROWSER_TIMEOUT'' = Some s \<longrightarrow> config_timeout cfg e = PStr s) \<and>
   (e ''APP_ENV'' = Some s \<longrightarrow> config_env cfg e = PStr s) \<and>
   (e ''EXECUTION_PARALLEL'' = Some s \<longrightarrow> config_parallel_execution cfg e = PStr s) \<and>
   (e ''EXECUTION_WORKERS'' = Some s \<longrightarrow> config_workers cfg e = PStr s) \<and>
   (e ''REPORTING_SCREENSHOTS_ON_FAILURE'' = Some s \<longrightarrow>
      config_screenshots_on_failure cfg e = PStr s) \<and>
   (e ''REPORTING_VIDEO_RECORDING'' = Some s \<longrightarrow> config_video_recording cfg e = PStr s) \<and>
   (e ''LOGGING_LEVEL'' = Some s \<longrightarrow> config_log_level cfg e = PStr s)"
  by (simp add: get_environment env_key_accessors config_browser_type_def config_headless_def
      config_base_url_def config_timeout_def config_env_def config_parallel_execution_def
      config_workers_def config_screenshots_on_failure_def config_video_recording_def
      config_log_level_def)

theorem environment_value_is_raw_string_witness:
  "get example_config all_false_environ ''browser.headless'' (PBool False) = PStr ''false'' \<and>
   config_browser_type example_config all_false_environ = PStr ''false'' \<and>
   config_headless example_config all_false_environ = PStr ''false'' \<and>
   truthy (config_headless example_config all_false_environ) \<and>
   config_base_url example_config all_false_environ = PStr ''false'' \<and>
   config_timeout example_config all_false_environ = PStr ''false'' \<and>
   config_env example_config all_false_environ = PStr ''false'' \<and>
   config_parallel_execution example_config all_false_environ = PStr ''false'' \<and>
   config_workers example_config all_false_environ = PStr ''false'' \<and>
   config_screenshots_on_failure example_config all_false_environ = PStr ''false'' \<and>
   config_video_recording example_config all_false_environ = PStr ''false'' \<and>
   config_log_level example_config all_false_environ = PStr ''false''"
  using environment_value_is_raw_string
    [of all_false_environ "''browser.headless''" "''false''" example_config "PBool False"]
  by (simp add: all_false_environ_def env_key_accessors)

text \<open>
  The claim as written promises a non-empty string under every override: with
  \<^verbatim>\<open>BROWSER_HEADLESS\<close> set to the empty string, \<^verbatim>\<open>headless\<close> is the empty string, which
  is falsy.
\<close>

theorem empty_environment_value_counterexample:
  "config_headless example_config [''BROWSER_HEADLESS'' \<mapsto> []] = PStr [] \<and>
   \<not> truthy (config_headless example_config [''BROWSER_HEADLESS'' \<mapsto> []])"
  by (simp add: config_headless_def get_def env_key_accessors)

section \<open>Properties of the waits\<close>

text \<open>
  A wait expires when every one of its polls finds the condition falsy (or the element
  absent): the first poll at the instant \<open>now w\<close> and the \<open>polls w T\<close> that follow.
\<close>

lemma until_expires:
  "(\<forall>i\<le>n. poll m (t + i) = Again) \<Longrightarrow> until n m msg t = (Inl (TimeoutException msg), t + n)"
proof (induction n arbitrary: t)
  case 0
  then show ?case by simp
next
  case (Suc n)
  from Suc.prems have "poll m t = Again" by (metis add.right_neutral le0)
  moreover have "\<forall>i\<le>n. poll m (Suc t + i) = Again"
  proof (intro allI impI)
    fix i assume "i \<le> n"
    then have "Suc i \<le> Suc n" by simp
    with Suc.prems have "poll m (t + Suc i) = Again" by blast
    then show "poll m (Suc t + i) = Again" by simp
  qed
  ultimately show ?case using Suc.IH [of "Suc t"] by simp
qed

lemma find_logger [simp]:
  "find_element (logger lv tm args w) = find_element w"
  "find_elements (logger lv tm args w) = find_elements w"
  by (intro ext, simp add: find_element_def find_elements_def logger_def
      cong: option.case_cong)+

lemma displayed_logger [simp]:
  "displayed (logger lv tm args w) = displayed w"
  "enabled (logger lv tm args w) = enabled w"
  by (simp_all add: logger_def)

lemma conditions_logger [simp]:
  "visibility_of_element_located (logger lv tm args w) = visibility_of_element_located w"
  "presence_of_all_elements_located (logger lv tm args w) = presence_of_all_elements_located w"
  "element_to_be_clickable (logger lv tm args w) = element_to_be_clickable w"
  "invisibility_of_element_located (logger lv tm args w) = invisibility_of_element_located w"
  by (intro ext, simp add: visibility_of_element_located_def presence_of_all_elements_located_def
      element_to_be_clickable_def invisibility_of_element_located_def
      cong: sum.case_cong exn.case_cong)+

lemma logger_fields [simp]:
  "polls (logger lv tm args w) = polls w"
  "now (logger lv tm args w) = now w"
  "logged (logger lv tm args w) = logged w @ [(lv, tm, args)]"
  by (simp_all add: logger_def)

lemma wait_until_expires:
  "(\<forall>i\<le>polls w T. poll (condition w) (now w + i) = Again) \<Longrightarrow>
   wait_until T condition w = (Inl (TimeoutException []), w\<lparr>now := now w + polls w T\<rparr>)"
  by (simp add: wait_until_def until_expires)

lemma wait_for_element_expires:
  assumes "\<forall>i\<le>polls w (timeout_or t (default_timeout self)).
             poll (visibility_of_element_located w loc) (now w + i) = Again"
  shows "fst (wait_for_element self loc t w) = Inl (TimeoutException [])"
    and "last (logged (snd (wait_for_element self loc t w))) =
           (ERROR, ''Element not found within {timeout}s: {locator}'',
            [AInt (timeout_or t (default_timeout self)), ALoc loc])"
proof -
  let ?w1 = "logger DEBUG ''Waiting for element: {locator}'' [ALoc loc] w"
  from assms have "\<forall>i\<le>polls ?w1 (timeout_or t (default_timeout self)).
     poll (visibility_of_element_located ?w1 loc) (now ?w1 + i) = Again" by simp
  from wait_until_expires [of ?w1 _ "\<lambda>w. visibility_of_element_located w loc", OF this]
  show "fst (wait_for_element self loc t w) = Inl (TimeoutException [])"
    and "last (logged (snd (wait_for_element self loc t w))) =
           (ERROR, ''Element not found within {timeout}s: {locator}'',
            [AInt (timeout_or t (default_timeout self)), ALoc loc])"
    by (simp_all add: wait_for_element_def Let_def logger_def)
qed


lemma wait_for_elements_expires:
  assumes "\<forall>i\<le>polls w (timeout_or t (default_timeout self)).
             poll (presence_of_all_elements_located w loc) (now w + i) = Again"
  shows "fst (wait_for_elements self loc t w) = Inl (TimeoutException [])"
    and "last (logged (snd (wait_for_elements self loc t w))) =
           (ERROR, ''Elements not found within {timeout}s: {locator}'',
            [AInt (timeout_or t (default_timeout self)), ALoc loc])"
proof -
  let ?w1 = "logger DEBUG ''Waiting for elements: {locator}'' [ALoc loc] w"
  from assms have "\<forall>i\<le>polls ?w1 (timeout_or t (default_timeout self)).
     poll (presence_of_all_elements_located ?w1 loc) (now ?w1 + i) = Again" by simp
  from wait_until_expires [of ?w1 _ "\<lambda>w. presence_of_all_elements_located w loc", OF this]
  show "fst (wait_for_elements self loc t w) = Inl (TimeoutException [])"
    and "last (logged (snd (wait_for_elements self loc t w))) =
           (ERROR, ''Elements not found within {timeout}s: {locator}'',
            [AInt (timeout_or t (default_timeout self)), ALoc loc])"
    by (simp_all add: wait_for_elements_def Let_def logger_def)
qed

lemma wait_for_element_clickable_expires:
  assumes "\<forall>i\<le>polls w (timeout_or t (default_timeout self)).
             poll (element_to_be_clickable w loc) (now w + i) = Again"
  shows "fst (wait_for_element_clickable self loc t w) = Inl (TimeoutException [])"
    and "last (logged (snd (wait_for_element_clickable self loc t w))) =
           (ERROR, ''Element not clickable within {timeout}s: {locator}'',
            [AInt (timeout_or t (default_timeout self)), ALoc loc])"
proof -
  let ?w1 = "logger DEBUG ''Waiting for element to be clickable: {locator}'' [ALoc loc] w"
  from assms have "\<forall>i\<le>polls ?w1 (timeout_or t (default_timeout self)).
     poll (element_to_be_clickable ?w1 loc) (now ?w1 + i) = Again" by simp
  from wait_until_expires [of ?w1 _ "\<lambda>w. element_to_be_clickable w loc", OF this]
  show "fst (wait_for_element_clickable self loc t w) = Inl (TimeoutException [])"
    and "last (logged (snd (wait_for_element_clickable self loc t w))) =
           (ERROR, ''Element not clickable within {timeout}s: {locator}'',
            [AInt (timeout_or t (default_timeout self)), ALoc loc])"
    by (simp_all add: wait_for_element_clickable_def Let_def logger_def)
qed

text \<open>An action raises what its wait raises.\<close>

lemma actions_propagate:
  assumes "fst (wait_for_element self loc t w) = Inl e"
  shows "fst (enter_text self loc txt clear_first t w) = Inl e"
    and "fst (get_text self loc t w) = Inl e"
    and "fst (get_attribute self loc a t w) = Inl e"
  using assms
  by (cases "wait_for_element self loc t w";
      simp add: enter_text_def get_text_def get_attribute_def)+

lemma click_propagates:
  assumes "fst (wait_for_element_clickable self loc t w) = Inl e"
  shows "fst (click self loc t w) = Inl e"
  using assms by (cases "wait_for_element_clickable self loc t w") (simp add: click_def)

text \<open>
  Claim C2, as amended. When a wait-based operation expires, it raises selenium's
  \<^verbatim>\<open>TimeoutException\<close> unchanged, whose message is the empty default: the page object passes
  no message to \<^verbatim>\<open>until\<close> and re-raises. The locator and the timeout go to the log instead: the
  last line logged by \<^verbatim>\<open>wait_for_element\<close>, \<^verbatim>\<open>wait_for_elements\<close> and
  \<^verbatim>\<open>wait_for_element_clickable\<close> is an error line that carries both. The actions built on the
  waits (\<^verbatim>\<open>click\<close>, \<^verbatim>\<open>enter_text\<close>, \<^verbatim>\<open>get_text\<close>, \<^verbatim>\<open>get_attribute\<close>) raise the same exception.
\<close>

theorem wait_timeout_is_raised_and_logged:
  "((\<forall>i\<le>polls w (timeout_or t (default_timeout self)).
        poll (visibility_of_element_located w loc) (now w + i) = Again) \<longrightarrow>
      fst (wait_for_element self loc t w) = Inl (TimeoutException []) \<and>
      last (logged (snd (wait_for_element self loc t w))) =
        (ERROR, ''Element not found within {timeout}s: {locator}'',
         [AInt (timeout_or t (default_timeout self)), ALoc loc]) \<and>
      fst (enter_text self loc txt clear_first t w) = Inl (TimeoutException []) \<and>
      fst (get_text self loc t w) = Inl (TimeoutException []) \<and>
      fst (get_attribute self loc a t w) = Inl (TimeoutException [])) \<and>
   ((\<forall>i\<le>polls w (timeout_or t (default_timeout self)).
        poll (presence_of_all_elements_located w loc) (now w + i) = Again) \<longrightarrow>
      fst (wait_for_elements self loc t w) = Inl (TimeoutException []) \<and>
      last (logged (snd (wait_for_elements self loc t w))) =
        (ERROR, ''Elements not found within {timeout}s: {locator}'',
         [AInt (timeout_or t (default_timeout self)), ALoc loc])) \<and>
   ((\<forall>i\<le>polls w (timeout_or t (default_timeout self)).
        poll (element_to_be_clickable w loc) (now w + i) = Again) \<longrightarrow>
      fst (wait_for_element_clickable self loc t w) = Inl (TimeoutException []) \<and>
      last (logged (snd (wait_for_element_clickable self loc t w))) =
        (ERROR, ''Element not clickable within {timeout}s: {locator}'',
         [AInt (timeout_or t (default_timeout self)), ALoc loc]) \<and>
      fst (click self loc t w) = Inl (TimeoutException []))"
proof (intro conjI impI)
  assume h: "\<forall>i\<le>polls w (timeout_or t (default_timeout self)).
        poll (visibility_of_element_located w loc) (now w + i) = Again"
  from wait_for_element_expires [OF h]
  show "fst (wait_for_element self loc t w) = Inl (TimeoutException [])"
    and "last (logged (snd (wait_for_element self loc t w))) =
        (ERROR, ''Element not found within {timeout}s: {locator}'',
         [AInt (timeout_or t (default_timeout self)), ALoc loc])"
    by simp_all
  from actions_propagate [OF wait_for_element_expires(1) [OF h]]
  show "fst (enter_text self loc txt clear_first t w) = Inl (TimeoutException [])"
    and "fst (get_text self loc t w) = Inl (TimeoutException [])"
    and "fst (get_attribute self loc a t w) = Inl (TimeoutException [])"
    by simp_all
next
  assume h: "\<forall>i\<le>polls w (timeout_or t (default_timeout self)).
        poll (presence_of_all_elements_located w loc) (now w + i) = Again"
  from wait_for_elements_expires [OF h]
  show "fst (wait_for_elements self loc t w) = Inl (TimeoutException [])"
    and "last (logged (snd (wait_for_elements self loc t w))) =
        (ERROR, ''Elements not found within {timeout}s: {locator}'',
         [AInt (timeout_or t (default_timeout self)), ALoc loc])"
    by simp_all
next
  assume h: "\<forall>i\<le>polls w (timeout_or t (default_timeout self)).
        poll (element_to_be_clickable w loc) (now w + i) = Again"
  from wait_for_element_clickable_expires [OF h]
  show "fst (wait_for_element_clickable self loc t w) = Inl (TimeoutException [])"
    and "last (logged (snd (wait_for_element_clickable self loc t w))) =
        (ERROR, ''Element not clickable within {timeout}s: {locator}'',
         [AInt (timeout_or t (default_timeout self)), ALoc loc])"
    by simp_all
  from click_propagates [OF wait_for_element_clickable_expires(1) [OF h]]
  show "fst (click self loc t w) = Inl (TimeoutException [])" .
qed

lemma blank_polls:
  "poll (visibility_of_element_located blank_world loc) i = Again"
  "poll (presence_of_all_elements_located blank_world loc) i = Again"
  "poll (element_to_be_clickable blank_world loc) i = Again"
  by (simp_all add: poll_def visibility_of_element_located_def
      presence_of_all_elements_located_def element_to_be_clickable_def find_element_def
      find_elements_def blank_world_def)

theorem wait_timeout_is_raised_and_logged_witness:
  "fst (wait_for_element page0 (''id'', ''login-button'') (Some 1) blank_world) =
     Inl (TimeoutException []) \<and>
   last (logged (snd (wait_for_element page0 (''id'', ''login-button'') (Some 1) blank_world))) =
     (ERROR, ''Element not found within {timeout}s: {locator}'',
      [AInt 1, ALoc (''id'', ''login-button'')]) \<and>
   fst (enter_text page0 (''id'', ''login-button'') ''x'' True (Some 1) blank_world) =
     Inl (TimeoutException []) \<and>
   fst (get_text page0 (''id'', ''login-button'') (Some 1) blank_world) =
     Inl (TimeoutException []) \<and>
   fst (get_attribute page0 (''id'', ''login-button'') ''class'' (Some 1) blank_world) =
     Inl (TimeoutException []) \<and>
   fst (wait_for_elements page0 (''id'', ''login-button'') (Some 1) blank_world) =
     Inl (TimeoutException []) \<and>
   last (logged (snd (wait_for_elements page0 (''id'', ''login-button'') (Some 1) blank_world))) =
     (ERROR, ''Elements not found within {timeout}s: {locator}'',
      [AInt 1, ALoc (''id'', ''login-button'')]) \<and>
   fst (wait_for_element_clickable page0 (''id'', ''login-button'') (Some 1) blank_world) =
     Inl (TimeoutException []) \<and>
   last (logged (snd (wait_for_element_clickable page0 (''id'', ''login-button'') (Some 1)
     blank_world))) =
     (ERROR, ''Element not clickable within {timeout}s: {locator}'',
      [AInt 1, ALoc (''id'', ''login-button'')]) \<and>
   fst (click page0 (''id'', ''login-button'') (Some 1) blank_world) = Inl (TimeoutException [])"
  using wait_timeout_is_raised_and_logged
    [of blank_world "Some 1" page0 "(''id'', ''login-button'')" "''x''" True "''class''"]
  by (simp add: blank_polls timeout_or_def)

text \<open>
  The claim as written puts the locator and the name of the operation into the payload
  of the exception. On a page where nothing matches, \<^verbatim>\<open>wait_for_element\<close> raises a
  \<^verbatim>\<open>TimeoutException\<close> whose message holds neither the value nor the strategy of the locator.
\<close>

theorem timeout_payload_counterexample:
  "(case fst (wait_for_element page0 (''id'', ''login-button'') (Some 1) blank_world) of
      Inl (TimeoutException m) \<Rightarrow> \<not> sublist ''login-button'' m \<and> \<not> sublist ''id'' m
    | Inl e \<Rightarrow> False
    | Inr el \<Rightarrow> False)"
  using wait_for_element_expires(1) [of blank_world "Some 1" page0 "(''id'', ''login-button'')"]
  by (simp add: blank_polls)

subsection \<open>The boolean waits\<close>

lemma is_element_visible_expires:
  assumes "\<forall>i\<le>polls w (timeout_or t (default_timeout self)).
             poll (visibility_of_element_located w loc) (now w + i) = Again"
  shows "fst (is_element_visible self loc t w) = Inr False"
  using wait_until_expires [of w _ "\<lambda>w. visibility_of_element_located w loc", OF assms]
  by (simp add: is_element_visible_def Let_def)

lemma wait_for_element_invisible_expires:
  assumes "\<forall>i\<le>polls w (timeout_or t (default_timeout self)).
             poll (invisibility_of_element_located w loc) (now w + i) = Again"
  shows "fst (wait_for_element_invisible self loc t w) = Inr (WBool False)"
proof -
  let ?w1 = "logger DEBUG ''Waiting for element to be invisible: {locator}'' [ALoc loc] w"
  from assms have "\<forall>i\<le>polls ?w1 (timeout_or t (default_timeout self)).
     poll (invisibility_of_element_located ?w1 loc) (now ?w1 + i) = Again" by simp
  from wait_until_expires [of ?w1 _ "\<lambda>w. invisibility_of_element_located w loc", OF this]
  show ?thesis by (simp add: wait_for_element_invisible_def Let_def)
qed

text \<open>
  Claim C6. When the wait of \<^verbatim>\<open>is_element_visible\<close> expires, the method returns \<^verbatim>\<open>False\<close> and
  raises nothing; when the wait of \<^verbatim>\<open>wait_for_element_invisible\<close> expires (the element is
  still displayed at every poll), the method returns \<^verbatim>\<open>False\<close> and raises nothing.
\<close>

theorem boolean_waits_absorb_timeout:
  "((\<forall>i\<le>polls w (timeout_or t (default_timeout self)).
        poll (visibility_of_element_located w loc) (now w + i) = Again) \<longrightarrow>
      fst (is_element_visible self loc t w) = Inr False) \<and>
   ((\<forall>i\<le>polls w (timeout_or t (default_timeout self)).
        poll (invisibility_of_element_located w loc) (now w + i) = Again) \<longrightarrow>
      fst (wait_for_element_invisible self loc t w) = Inr (WBool False))"
  using is_element_visible_expires wait_for_element_invisible_expires by blast

lemma login_banner_polls:
  "poll (invisibility_of_element_located login_world (''css selector'', ''.error'')) i = Again"
  by (simp add: poll_def invisibility_of_element_located_def find_element_def login_world_def
      blank_world_def)

theorem boolean_waits_absorb_timeout_witness:
  "fst (is_element_visible page0 (''id'', ''login-button'') (Some 3) blank_world) = Inr False \<and>
   fst (wait_for_element_invisible page0 (''css selector'', ''.error'') (Some 3) login_world) =
     Inr (WBool False)"
  using boolean_waits_absorb_timeout
      [of blank_world "Some 3" page0 "(''id'', ''login-button'')"]
    boolean_waits_absorb_timeout
      [of login_world "Some 3" page0 "(''css selector'', ''.error'')"]
  by (simp add: blank_polls login_banner_polls)

subsection \<open>The timeout of a call\<close>

lemma login_world_eval:
  "fst (wait_for_element page0 (''id'', ''user-name'') (Some 0) login_world) = Inr (Element 11)"
  by code_simp

lemma login_world_eval2:
  "fst (wait_until 0 (\<lambda>w. visibility_of_element_located w (''id'', ''user-name'')) login_world) =
     Inl (TimeoutException [])"
  by code_simp

lemma zero_timeout: "timeout_or (Some 0) d = timeout_or None d"
  by (simp add: timeout_or_def)

lemma zero_timeout_waits:
  "wait_for_element self loc (Some 0) w = wait_for_element self loc None w"
  "wait_for_elements self loc (Some 0) w = wait_for_elements self loc None w"
  "wait_for_element_clickable self loc (Some 0) w = wait_for_element_clickable self loc None w"
  "wait_for_element_invisible self loc (Some 0) w = wait_for_element_invisible self loc None w"
  "is_element_visible self loc (Some 0) w = is_element_visible self loc None w"
  by (simp_all add: wait_for_element_def wait_for_elements_def wait_for_element_clickable_def
      wait_for_element_invisible_def is_element_visible_def zero_timeout)

text \<open>
  Claim C7 says that a call's timeout \<open>T\<close> bounds the wait whenever it is given, \<open>T = 0\<close>
  included. The program computes \<^verbatim>\<open>timeout or self.timeout\<close>, and \<open>0\<close> is falsy: a call
  with \<open>timeout=0\<close> behaves in every wait as a call without a timeout. On the login page,
  where the user-name field appears at instant 3, \<^verbatim>\<open>wait_for_element\<close> with \<open>timeout=0\<close> and a
  default of ten seconds finds the field, while a wait bounded by \<open>0\<close> seconds expires.
\<close>

theorem zero_timeout_falls_back_to_default:
  "wait_for_element self loc (Some 0) w = wait_for_element self loc None w \<and>
   wait_for_elements self loc (Some 0) w = wait_for_elements self loc None w \<and>
   wait_for_element_clickable self loc (Some 0) w = wait_for_element_clickable self loc None w \<and>
   wait_for_element_invisible self loc (Some 0) w = wait_for_element_invisible self loc None w \<and>
   is_element_visible self loc (Some 0) w = is_element_visible self loc None w \<and>
   fst (wait_for_element page0 (''id'', ''user-name'') (Some 0) login_world) = Inr (Element 11) \<and>
   fst (wait_until 0 (\<lambda>w. visibility_of_element_located w (''id'', ''user-name'')) login_world) =
     Inl (TimeoutException [])"
  by (intro conjI zero_timeout_waits login_world_eval login_world_eval2)

subsection \<open>Interactions after a wait\<close>

text \<open>
  A wait that returns an element returns one for which the condition held at the instant
  the wait ended, and leaves the browser as it was but for the clock and the log.
\<close>

lemma poll_Value: "poll m t = Value v \<longleftrightarrow> m t = Inr (Some v)"
  by (auto simp: poll_def split: sum.splits option.splits exn.splits)

lemma until_value: "until n m msg t = (Inr v, t') \<Longrightarrow> m t' = Inr (Some v)"
proof (induction n arbitrary: t)
  case 0
  then show ?case by (cases "poll m t") (auto simp: poll_Value)
next
  case (Suc n)
  then show ?case by (cases "poll m t") (auto simp: poll_Value)
qed

lemma wait_until_value:
  "wait_until T condition w = (Inr v, w') \<Longrightarrow>
   condition w (now w') = Inr (Some v) \<and> w' = w\<lparr>now := now w'\<rparr>"
  by (auto simp: wait_until_def split: prod.splits dest: until_value)

lemma wait_for_element_value:
  assumes "fst (wait_for_element self loc t w) = Inr el"
  shows "visibility_of_element_located w loc (now (snd (wait_for_element self loc t w))) =
           Inr (Some el)"
    and "snd (wait_for_element self loc t w) =
           (logger DEBUG ''Waiting for element: {locator}'' [ALoc loc] w)
             \<lparr>now := now (snd (wait_for_element self loc t w))\<rparr>"
proof -
  let ?w1 = "logger DEBUG ''Waiting for element: {locator}'' [ALoc loc] w"
  let ?T = "timeout_or t (default_timeout self)"
  obtain r w2 where r: "wait_until ?T (\<lambda>w. visibility_of_element_located w loc) ?w1 = (r, w2)"
    by (cases "wait_until ?T (\<lambda>w. visibility_of_element_located w loc) ?w1")
  with assms have "r = Inr el"
    by (auto simp: wait_for_element_def Let_def split: sum.splits exn.splits)
  with r have w: "wait_until ?T (\<lambda>w. visibility_of_element_located w loc) ?w1 = (Inr el, w2)"
    by simp
  then have res: "wait_for_element self loc t w = (Inr el, w2)"
    by (simp add: wait_for_element_def Let_def)
  from wait_until_value [OF w]
  have "visibility_of_element_located w loc (now w2) = Inr (Some el)"
    and "w2 = ?w1\<lparr>now := now w2\<rparr>" by simp_all
  with res show "visibility_of_element_located w loc (now (snd (wait_for_element self loc t w))) =
           Inr (Some el)"
    and "snd (wait_for_element self loc t w) =
           (logger DEBUG ''Waiting for element: {locator}'' [ALoc loc] w)
             \<lparr>now := now (snd (wait_for_element self loc t w))\<rparr>"
    by simp_all
qed





lemma login_world_fields:
  "native_click_error login_world (Element 12) = Some ElementClickInterceptedException"
  "script_click_error login_world (Element 12) = None"
  "clicks login_world = []"
  "clear_error login_world (Element 11) = None"
  "send_keys_error login_world (Element 11) = None"
  "field_value login_world (Element 11) = ''old''"
  "native_click_error broken_world (Element 12) = Some ElementClickInterceptedException"
  "script_click_error broken_world (Element 12) = Some JavascriptException"
  by (simp_all add: login_world_def broken_world_def blank_world_def)


text \<open>
  Claim C9. Let the wait of \<^verbatim>\<open>enter_text\<close> return the element, so that it is the first
  match of the locator and displayed at the instant the wait ended, and let the browser
  accept \<^verbatim>\<open>clear\<close> and \<^verbatim>\<open>send_keys\<close> on it. With \<open>clear_first\<close> the field ends holding exactly
  the text; without it the field ends holding its initial content followed by the text.
\<close>

theorem enter_text_field_content:
  assumes "fst (wait_for_element self loc t w) = Inr el"
    and "clear_error w el = None" and "send_keys_error w el = None"
  shows "visibility_of_element_located w loc (now (snd (wait_for_element self loc t w))) =
           Inr (Some el) \<and>
         fst (enter_text self loc txt True t w) = Inr () \<and>
         field_value (snd (enter_text self loc txt True t w)) el = txt \<and>
         fst (enter_text self loc txt False t w) = Inr () \<and>
         field_value (snd (enter_text self loc txt False t w)) el = field_value w el @ txt"
proof -
  obtain w1 where w1: "wait_for_element self loc t w = (Inr el, w1)"
    using assms(1) by (cases "wait_for_element self loc t w") simp
  from wait_for_element_value(2) [OF assms(1)] w1
  have eq: "w1 = (logger DEBUG ''Waiting for element: {locator}'' [ALoc loc] w)
                   \<lparr>now := now w1\<rparr>"
    by simp
  have f: "clear_error w1 = clear_error w" "send_keys_error w1 = send_keys_error w"
    "field_value w1 = field_value w"
    using arg_cong [OF eq, of clear_error] arg_cong [OF eq, of send_keys_error]
      arg_cong [OF eq, of field_value]
    by (simp_all add: logger_def)
  from wait_for_element_value(1) [OF assms(1)] w1 f assms(2,3) show ?thesis
    by (simp add: enter_text_def Let_def element_clear_def element_send_keys_def logger_def)
qed

lemma user_name_visible:
  "fst (wait_for_element page0 (''id'', ''user-name'') None login_world) = Inr (Element 11)"
  by code_simp

theorem enter_text_field_content_witness:
  "fst (enter_text page0 (''id'', ''user-name'') ''standard_user'' True None login_world) = Inr () \<and>
   field_value (snd (enter_text page0 (''id'', ''user-name'') ''standard_user'' True None
     login_world)) (Element 11) = ''standard_user'' \<and>
   fst (enter_text page0 (''id'', ''user-name'') ''standard_user'' False None login_world) = Inr () \<and>
   field_value (snd (enter_text page0 (''id'', ''user-name'') ''standard_user'' False None
     login_world)) (Element 11) = ''oldstandard_user''"
  using enter_text_field_content [OF user_name_visible, of "''standard_user''"]
  by (simp add: login_world_fields)

section \<open>Properties of the driver factory\<close>

lemma lower_safari: "lower ''Safari'' = ''safari''"
  by code_simp

lemma create_driver_local_unsupported:
  assumes "remote_url self = None \<or> remote_url self = Some []"
    and "browser self \<notin> {''chrome'', ''firefox'', ''edge''}"
  shows "fst (create_driver launcher self lg) =
           Inl (ValueError (''Unsupported browser: '' @ browser self
                  @ ''. Supported browsers: chrome, firefox, edge''))"
  using assms by (auto simp: create_driver_def Let_def driver_map_def)

text \<open>
  Claim C3 says that \<^verbatim>\<open>create_driver\<close> fails with an unsupported-browser error for every
  browser outside chrome, firefox and edge, with or without a remote endpoint. With a
  remote endpoint the program returns from \<^verbatim>\<open>_create_remote_driver\<close> before it looks the browser up:
  for \<^verbatim>\<open>Safari\<close> it starts a remote session with Firefox options. Without a remote endpoint
  the same factory raises the \<^verbatim>\<open>ValueError\<close> that the docstring of \<^verbatim>\<open>create_driver\<close> promises.
\<close>

theorem remote_driver_skips_browser_check:
  "fst (create_driver accepting_launcher
          (new_factory ''Safari'' False (Some ''http://grid:4444/wd/hub'')) []) =
     Inr \<lparr>session_id = ''session-1'',
          launched_by = Remote ''http://grid:4444/wd/hub'' (new_options FirefoxOptions),
          quit_error = None, implicit_wait = None, page_load_timeout = None,
          script_timeout = None, maximized = False\<rparr> \<and>
   fst (create_driver accepting_launcher (new_factory ''Safari'' False None) []) =
     Inl (ValueError ''Unsupported browser: safari. Supported browsers: chrome, firefox, edge'')"
  by (simp add: create_driver_def create_remote_driver_def new_factory_def lower_safari
      start_session_def accepting_launcher_def driver_map_def Let_def)

text \<open>
  Claim C8. \<^verbatim>\<open>quit_driver\<close> never raises and leaves no driver: whatever the factory holds,
  the call returns normally and the reference is \<^verbatim>\<open>None\<close> afterwards; without a driver it
  changes nothing; a second call changes nothing; and what \<^verbatim>\<open>quit()\<close> raised is the last
  line of the log.
\<close>

theorem quit_driver_idempotent:
  "fst (quit_driver self lg) = Inr () \<and>
   driver (fst (snd (quit_driver self lg))) = None \<and>
   (driver self = None \<longrightarrow> quit_driver self lg = (Inr (), self, lg)) \<and>
   quit_driver (fst (snd (quit_driver self lg))) (snd (snd (quit_driver self lg))) =
     (Inr (), fst (snd (quit_driver self lg)), snd (snd (quit_driver self lg))) \<and>
   (driver self = Some d \<and> quit_error d = Some e \<longrightarrow>
      last (snd (snd (quit_driver self lg))) = (ERROR, ''Error quitting driver: {e}'', [AExn e]))"
  by (cases "driver self") (auto simp: quit_driver_def Let_def split: option.splits)

theorem quit_driver_idempotent_witness:
  "fst (quit_driver stuck_factory []) = Inr () \<and>
   driver (fst (snd (quit_driver stuck_factory []))) = None \<and>
   quit_driver (stuck_factory\<lparr>driver := None\<rparr>) [] = (Inr (), stuck_factory\<lparr>driver := None\<rparr>, []) \<and>
   last (snd (snd (quit_driver stuck_factory []))) =
     (ERROR, ''Error quitting driver: {e}'', [AExn (WebDriverException ''chrome not reachable'')])"
  using quit_driver_idempotent
      [of stuck_factory "[]" stuck_driver "WebDriverException ''chrome not reachable''"]
    quit_driver_idempotent
      [of "stuck_factory\<lparr>driver := None\<rparr>" "[]" stuck_driver
        "WebDriverException ''chrome not reachable''"]
  by (simp add: stuck_factory_def stuck_driver_def)

end
